theory Spec2Isabelle
  imports Complex_Main "HOL-Library.AList"
begin

section \<open>Images, template matches and the template cache\<close>

text \<open>
  The development follows \<^verbatim>\<open>src/template_matcher.py\<close> and \<^verbatim>\<open>src/modules/capture.py\<close>.
  A numpy image is a height, a width and a pixel function. Confidence scores and overlap
  ratios are floating-point numbers in the program; they are idealised here as reals, so
  rounding is not modelled. Python's insertion-ordered \<^verbatim>\<open>dict\<close> is an association list
  updated in place (\<^const>\<open>AList.update\<close>).
\<close>

record image =
  img_height :: nat
  img_width :: nat
  img_pixel :: "nat \<Rightarrow> nat \<Rightarrow> nat"

text \<open>Class \<^verbatim>\<open>TemplateMatch\<close>; the constructor derives the centre from the box.\<close>

record template_match =
  tm_x :: int
  tm_y :: int
  tm_width :: nat
  tm_height :: nat
  tm_confidence :: real
  tm_template_name :: string
  tm_template_type :: string
  tm_center_x :: int
  tm_center_y :: int

definition TemplateMatch ::
  "int \<Rightarrow> int \<Rightarrow> nat \<Rightarrow> nat \<Rightarrow> real \<Rightarrow> string \<Rightarrow> string \<Rightarrow> template_match" where
  "TemplateMatch px py w h c n t =
     \<lparr>tm_x = px, tm_y = py, tm_width = w, tm_height = h, tm_confidence = c,
      tm_template_name = n, tm_template_type = t,
      tm_center_x = px + int w div 2, tm_center_y = py + int h div 2\<rparr>"

text \<open>
  The metadata dictionary of a template. A key that is absent from the JSON sidecar is
  \<open>None\<close>; the sidecar is taken to be a JSON object whose present keys are well typed.
\<close>

record metadata =
  md_name :: "string option"
  md_type :: "string option"
  md_created :: "real option"
  md_threshold :: "real option"
  md_width :: "nat option"
  md_height :: "nat option"

record cache_entry =
  ce_image :: image
  ce_metadata :: metadata
  ce_height :: nat
  ce_width :: nat

type_synonym template_cache = "(string \<times> cache_entry) list"

datatype py_error = CvError | OSError | JSONDecodeError | ZeroDivisionError

section \<open>The backing store\<close>

text \<open>
  The templates directory: file names with their contents, and the set of file names that
  the operating system refuses to write or remove. \<^verbatim>\<open>cv2.imread\<close> returns \<^verbatim>\<open>None\<close> for a
  file it cannot decode; \<^verbatim>\<open>cv2.imwrite\<close> raises on an empty image and otherwise reports
  an I/O failure by returning \<^verbatim>\<open>False\<close>; \<^verbatim>\<open>open\<close>, \<^verbatim>\<open>json.load\<close> and
  \<^verbatim>\<open>Path.unlink\<close> raise.
\<close>

datatype file_content = Png_data image | Json_data metadata | Garbage

record store =
  files :: "(string \<times> file_content) list"
  denied :: "string list"

definition path_exists :: "store \<Rightarrow> string \<Rightarrow> bool" where
  "path_exists st p = (map_of (files st) p \<noteq> None)"

definition imread :: "store \<Rightarrow> string \<Rightarrow> image option" where
  "imread st p = (case map_of (files st) p of Some (Png_data img) \<Rightarrow> Some img | _ \<Rightarrow> None)"

definition json_load :: "store \<Rightarrow> string \<Rightarrow> py_error + metadata" where
  "json_load st p =
     (case map_of (files st) p of
        Some (Json_data m) \<Rightarrow> Inr m
      | Some _ \<Rightarrow> Inl JSONDecodeError
      | None \<Rightarrow> Inl OSError)"

definition imwrite :: "store \<Rightarrow> string \<Rightarrow> image \<Rightarrow> py_error + (bool \<times> store)" where
  "imwrite st p img =
     (if img_height img = 0 \<or> img_width img = 0 then Inl CvError
      else if p \<in> set (denied st) then Inr (False, st)
      else Inr (True, st\<lparr>files := AList.update p (Png_data img) (files st)\<rparr>))"

definition json_dump :: "store \<Rightarrow> string \<Rightarrow> metadata \<Rightarrow> py_error + store" where
  "json_dump st p m =
     (if p \<in> set (denied st) then Inl OSError
      else Inr (st\<lparr>files := AList.update p (Json_data m) (files st)\<rparr>))"

definition unlink :: "store \<Rightarrow> string \<Rightarrow> py_error + store" where
  "unlink st p =
     (if p \<in> set (denied st) then Inl OSError
      else Inr (st\<lparr>files := AList.delete p (files st)\<rparr>))"

text \<open>
  \<^verbatim>\<open>templates_dir.glob("*.png")\<close> with \<^verbatim>\<open>.stem\<close>: the names of the image files. A
  file whose whole name is \<^verbatim>\<open>.png\<close> matches the pattern and has no suffix to strip.
\<close>

definition png_suffix :: string where
  "png_suffix = ''.png''"

definition json_suffix :: string where
  "json_suffix = ''.json''"

definition is_png :: "string \<Rightarrow> bool" where
  "is_png p = (length png_suffix \<le> length p \<and> drop (length p - length png_suffix) p = png_suffix)"

definition stem :: "string \<Rightarrow> string" where
  "stem p = (if p = png_suffix then p else take (length p - length png_suffix) p)"

definition glob_png :: "store \<Rightarrow> string list" where
  "glob_png st = map stem (filter is_png (map fst (files st)))"

section \<open>Loading templates\<close>

datatype log_level = Debug | Info | Warning | Error

type_synonym log = "(log_level \<times> string) list"

text \<open>
  \<^verbatim>\<open>TemplateMatcher.load_template\<close>. The parameter \<open>now\<close> is \<^verbatim>\<open>time.time()\<close>. The result
  is the returned boolean, the cache and the log.
\<close>

definition default_metadata :: "string \<Rightarrow> real \<Rightarrow> metadata" where
  "default_metadata template_name now =
     \<lparr>md_name = Some template_name, md_type = Some ''unknown'', md_created = Some now,
      md_threshold = Some 0.7, md_width = None, md_height = None\<rparr>"

definition load_template ::
  "store \<Rightarrow> real \<Rightarrow> string \<Rightarrow> template_cache \<Rightarrow> log \<Rightarrow> bool \<times> template_cache \<times> log" where
  "load_template st now template_name cache lg =
     (let img_path = template_name @ png_suffix in
      if \<not> path_exists st img_path then (False, cache, lg @ [(Warning, template_name)])
      else case imread st img_path of
        None \<Rightarrow> (False, cache, lg @ [(Warning, template_name)])
      | Some template_img \<Rightarrow>
         (let meta_path = template_name @ json_suffix;
              loaded = (if path_exists st meta_path then json_load st meta_path
                        else Inr (default_metadata template_name now))
          in case loaded of
               Inl e \<Rightarrow> (False, cache, lg @ [(Error, template_name)])
             | Inr md \<Rightarrow>
                 (True,
                  AList.update template_name
                    \<lparr>ce_image = template_img, ce_metadata = md,
                     ce_height = img_height template_img, ce_width = img_width template_img\<rparr>
                    cache,
                  lg @ [(Debug, template_name)])))"

text \<open>
  \<^verbatim>\<open>TemplateMatcher.load_all_templates\<close>: the cache is cleared, then every image file is
  loaded. \<^verbatim>\<open>load_template\<close> catches its own exceptions, so the handler of the loop is
  never reached.
\<close>

fun load_loop :: "store \<Rightarrow> real \<Rightarrow> string list \<Rightarrow> template_cache \<Rightarrow> log \<Rightarrow> template_cache \<times> log" where
  "load_loop st now [] cache lg = (cache, lg)"
| "load_loop st now (n # ns) cache lg =
     (case load_template st now n cache lg of (ok, cache', lg') \<Rightarrow> load_loop st now ns cache' lg')"

definition load_all_templates :: "store \<Rightarrow> real \<Rightarrow> template_cache \<Rightarrow> log \<Rightarrow> template_cache \<times> log" where
  "load_all_templates st now cache lg =
     (case load_loop st now (glob_png st) [] lg of
        (cache', lg') \<Rightarrow> (cache', lg' @ [(Info, ''Loaded templates'')]))"

section \<open>Saving and deleting templates\<close>

text \<open>
  \<^verbatim>\<open>TemplateMatcher.save_template\<close> and \<^verbatim>\<open>TemplateMatcher.delete_template\<close>. Every
  exception raised inside the \<^verbatim>\<open>try\<close> block ends in \<^verbatim>\<open>return False\<close>; the value
  returned by \<^verbatim>\<open>cv2.imwrite\<close> is dropped. The result is the returned boolean, the store
  and the cache.
\<close>

definition save_template ::
  "store \<Rightarrow> real \<Rightarrow> template_cache \<Rightarrow> image \<Rightarrow> string \<Rightarrow> string \<Rightarrow> real
     \<Rightarrow> bool \<times> store \<times> template_cache" where
  "save_template st now cache img name template_type confidence_threshold =
     (let img_path = name @ png_suffix in
      case imwrite st img_path img of
        Inl e \<Rightarrow> (False, st, cache)
      | Inr (written, st1) \<Rightarrow>
         (let md = \<lparr>md_name = Some name, md_type = Some template_type, md_created = Some now,
                    md_threshold = Some confidence_threshold,
                    md_width = Some (img_width img), md_height = Some (img_height img)\<rparr>;
              meta_path = name @ json_suffix
          in case json_dump st1 meta_path md of
               Inl e \<Rightarrow> (False, st1, cache)
             | Inr st2 \<Rightarrow>
                 (True, st2,
                  AList.update name
                    \<lparr>ce_image = img, ce_metadata = md,
                     ce_height = img_height img, ce_width = img_width img\<rparr> cache)))"

definition delete_template :: "store \<Rightarrow> template_cache \<Rightarrow> string \<Rightarrow> bool \<times> store \<times> template_cache" where
  "delete_template st cache name =
     (let img_path = name @ png_suffix; meta_path = name @ json_suffix in
      case (if path_exists st img_path then unlink st img_path else Inr st) of
        Inl e \<Rightarrow> (False, st, cache)
      | Inr st1 \<Rightarrow>
         (case (if path_exists st1 meta_path then unlink st1 meta_path else Inr st1) of
            Inl e \<Rightarrow> (False, st1, cache)
          | Inr st2 \<Rightarrow>
              (True, st2,
               if map_of cache name \<noteq> None then AList.delete name cache else cache)))"

section \<open>Matching\<close>

record matcher =
  template_cache :: template_cache
  confidence_threshold :: real
  nms_threshold :: real

text \<open>
  \<^verbatim>\<open>cv2.matchTemplate\<close> with \<^verbatim>\<open>TM_CCOEFF_NORMED\<close>: the correlation at an offset is the
  parameter \<open>tm\<close> (applied to the frame, the template, the column and the row); the call
  raises when the template does not fit into the frame, and otherwise returns one score
  for every placement, row by row.
\<close>

type_synonym correlation = "image \<Rightarrow> image \<Rightarrow> nat \<Rightarrow> nat \<Rightarrow> real"

definition matchTemplate :: "correlation \<Rightarrow> image \<Rightarrow> image \<Rightarrow> py_error + real list list" where
  "matchTemplate tm img templ =
     (if img_height img < img_height templ \<or> img_width img < img_width templ then Inl CvError
      else Inr (map (\<lambda>r. map (\<lambda>c. tm img templ c r) [0 ..< img_width img - img_width templ + 1])
                  [0 ..< img_height img - img_height templ + 1]))"

text \<open>\<^verbatim>\<open>zip(*np.where(result >= threshold)[::-1])\<close>: the points (column, row), row by row.\<close>

definition where_ge :: "real list list \<Rightarrow> real \<Rightarrow> (nat \<times> nat) list" where
  "where_ge result threshold =
     concat (map (\<lambda>(r, row). map (\<lambda>(c, v). (c, r)) (filter (\<lambda>(c, v). threshold \<le> v) (enumerate 0 row)))
                 (enumerate 0 result))"

definition match_single_template ::
  "correlation \<Rightarrow> image \<Rightarrow> image \<Rightarrow> string \<Rightarrow> string \<Rightarrow> real \<Rightarrow> template_match list" where
  "match_single_template tm screen_image template name template_type threshold =
     (case matchTemplate tm screen_image template of
        Inl e \<Rightarrow> []
      | Inr result \<Rightarrow>
          map (\<lambda>pt. TemplateMatch (int (fst pt)) (int (snd pt)) (img_width template)
                     (img_height template) (result ! snd pt ! fst pt) name template_type)
              (where_ge result threshold))"

text \<open>
  \<^verbatim>\<open>cv2.dnn.NMSBoxes\<close> with its default \<^verbatim>\<open>eta = 1\<close> and \<^verbatim>\<open>top_k = 0\<close>: the boxes whose
  score is above the score threshold, by descending score (a stable sort), each kept
  unless it overlaps an already kept box by more than the overlap threshold. The overlap
  of two boxes is one minus their Jaccard distance.
\<close>

type_synonym box = "real \<times> real \<times> real \<times> real"

definition box_area :: "box \<Rightarrow> real" where
  "box_area b = (case b of (bx, by, bw, bh) \<Rightarrow> bw * bh)"

definition box_inter :: "box \<Rightarrow> box \<Rightarrow> box" where
  "box_inter a b =
     (case a of (ax, ay, aw, ah) \<Rightarrow> case b of (bx, by, bw, bh) \<Rightarrow>
        (let x1 = max ax bx; y1 = max ay by;
             w = min (ax + aw) (bx + bw) - x1; h = min (ay + ah) (by + bh) - y1
         in if w \<le> 0 \<or> h \<le> 0 then (0, 0, 0, 0) else (x1, y1, w, h)))"

definition jaccardDistance :: "box \<Rightarrow> box \<Rightarrow> real" where
  "jaccardDistance a b =
     (let Aa = box_area a; Ab = box_area b in
      if Aa + Ab \<le> 0 then 0
      else (let Aab = box_area (box_inter a b) in 1 - Aab / (Aa + Ab - Aab)))"

definition rectOverlap :: "box \<Rightarrow> box \<Rightarrow> real" where
  "rectOverlap a b = 1 - jaccardDistance a b"

definition GetMaxScoreIndex :: "real list \<Rightarrow> real \<Rightarrow> (real \<times> nat) list" where
  "GetMaxScoreIndex scores threshold =
     sort_key (\<lambda>p. - fst p)
       (filter (\<lambda>p. threshold < fst p) (map (\<lambda>(i, s). (s, i)) (enumerate 0 scores)))"

fun NMSFast :: "box list \<Rightarrow> real \<Rightarrow> (real \<times> nat) list \<Rightarrow> nat list \<Rightarrow> nat list" where
  "NMSFast bboxes nms_thr [] indices = indices"
| "NMSFast bboxes nms_thr (p # rest) indices =
     (let idx = snd p;
          keep = list_all (\<lambda>kept_idx. rectOverlap (bboxes ! idx) (bboxes ! kept_idx) \<le> nms_thr) indices
      in NMSFast bboxes nms_thr rest (if keep then indices @ [idx] else indices))"

definition NMSBoxes :: "box list \<Rightarrow> real list \<Rightarrow> real \<Rightarrow> real \<Rightarrow> nat list" where
  "NMSBoxes bboxes scores score_threshold nms_thr =
     NMSFast bboxes nms_thr (GetMaxScoreIndex scores score_threshold) []"

text \<open>
  \<^verbatim>\<open>TemplateMatcher._apply_nms\<close>: the matches are grouped by type in a dictionary (the
  groups in the order in which their types first occur), each group goes through
  \<^verbatim>\<open>NMSBoxes\<close> with the matcher's global confidence threshold as score threshold, and the
  survivors are appended group after group.
\<close>

fun group_by_type ::
  "template_match list \<Rightarrow> (string \<times> template_match list) list \<Rightarrow> (string \<times> template_match list) list" where
  "group_by_type [] grouped_matches = grouped_matches"
| "group_by_type (m # ms) grouped_matches =
     group_by_type ms
       (case map_of grouped_matches (tm_template_type m) of
          None \<Rightarrow> grouped_matches @ [(tm_template_type m, [m])]
        | Some l \<Rightarrow> AList.update (tm_template_type m) (l @ [m]) grouped_matches)"

definition match_box :: "template_match \<Rightarrow> box" where
  "match_box m = (real_of_int (tm_x m), real_of_int (tm_y m), real (tm_width m), real (tm_height m))"

definition nms_group :: "matcher \<Rightarrow> template_match list \<Rightarrow> template_match list" where
  "nms_group self type_matches =
     (if type_matches = [] then []
      else map (\<lambda>i. type_matches ! i)
             (NMSBoxes (map match_box type_matches) (map tm_confidence type_matches)
                (confidence_threshold self) (nms_threshold self)))"

definition apply_nms :: "matcher \<Rightarrow> template_match list \<Rightarrow> template_match list" where
  "apply_nms self matches =
     (if matches = [] then []
      else concat (map (\<lambda>g. nms_group self (snd g)) (group_by_type matches [])))"

text \<open>
  \<^verbatim>\<open>TemplateMatcher.match_templates\<close>. The type filter is skipped when it is \<^verbatim>\<open>None\<close> or
  an empty list; the sort is Python's stable sort with \<^verbatim>\<open>reverse=True\<close>.
\<close>

definition type_skipped :: "string list option \<Rightarrow> string \<Rightarrow> bool" where
  "type_skipped template_types template_type =
     (case template_types of
        None \<Rightarrow> False
      | Some ts \<Rightarrow> ts \<noteq> [] \<and> template_type \<notin> set ts)"

fun collect_matches ::
  "correlation \<Rightarrow> matcher \<Rightarrow> image \<Rightarrow> string list option \<Rightarrow> template_cache \<Rightarrow> template_match list" where
  "collect_matches tm self screen_image template_types [] = []"
| "collect_matches tm self screen_image template_types (item # items) =
     (let template_name = fst item; template_data = snd item;
          md = ce_metadata template_data;
          template_type = (case md_type md of None \<Rightarrow> ''unknown'' | Some t \<Rightarrow> t)
      in if type_skipped template_types template_type
         then collect_matches tm self screen_image template_types items
         else (let threshold = (case md_threshold md of
                                  None \<Rightarrow> confidence_threshold self | Some t \<Rightarrow> t)
               in match_single_template tm screen_image (ce_image template_data)
                    template_name template_type threshold
                  @ collect_matches tm self screen_image template_types items))"

definition sort_by_confidence :: "template_match list \<Rightarrow> template_match list" where
  "sort_by_confidence matches = sort_key (\<lambda>m. - tm_confidence m) matches"

definition match_templates ::
  "correlation \<Rightarrow> matcher \<Rightarrow> image option \<Rightarrow> string list option \<Rightarrow> template_match list" where
  "match_templates tm self screen_image template_types =
     (case screen_image of
        None \<Rightarrow> []
      | Some img \<Rightarrow>
          apply_nms self
            (sort_by_confidence (collect_matches tm self img template_types (template_cache self))))"

section \<open>The capture loop\<close>

text \<open>
  \<^verbatim>\<open>src/modules/capture.py\<close>. The template images are assets and \<^verbatim>\<open>utils.single_match\<close>,
  \<^verbatim>\<open>utils.multi_match\<close> and \<^verbatim>\<open>utils.convert_to_relative\<close> come from a module outside the
  sources, so they are parameters. A point that \<^verbatim>\<open>single_match\<close> does not find is
  \<open>None\<close>. The state holds the attributes of the \<^verbatim>\<open>Capture\<close> object and the variables
  of the \<^verbatim>\<open>config\<close> module that the loop reads and writes.
\<close>

definition MINIMAP_TOP_BORDER :: int where
  "MINIMAP_TOP_BORDER = 5"

definition MINIMAP_BOTTOM_BORDER :: int where
  "MINIMAP_BOTTOM_BORDER = 9"

type_synonym point = "int \<times> int"

record assets =
  MM_TL_TEMPLATE :: image
  MM_BR_TEMPLATE :: image
  PLAYER_TEMPLATE :: image

definition MMT_HEIGHT :: "assets \<Rightarrow> nat" where
  "MMT_HEIGHT a = max (img_height (MM_TL_TEMPLATE a)) (img_height (MM_BR_TEMPLATE a))"

definition MMT_WIDTH :: "assets \<Rightarrow> nat" where
  "MMT_WIDTH a = max (img_width (MM_TL_TEMPLATE a)) (img_width (MM_BR_TEMPLATE a))"

definition PT_HEIGHT :: "assets \<Rightarrow> nat" where
  "PT_HEIGHT a = img_height (PLAYER_TEMPLATE a)"

definition PT_WIDTH :: "assets \<Rightarrow> nat" where
  "PT_WIDTH a = img_width (PLAYER_TEMPLATE a)"

record utils =
  single_match :: "image \<Rightarrow> image \<Rightarrow> point option \<times> point option"
  multi_match :: "image \<Rightarrow> image \<Rightarrow> real \<Rightarrow> point list"
  convert_to_relative :: "point \<Rightarrow> image \<Rightarrow> real \<times> real"

record window =
  win_left :: int
  win_top :: int
  win_width :: int
  win_height :: int

definition default_window :: window where
  "default_window = \<lparr>win_left = 0, win_top = 0, win_width = 1440, win_height = 900\<rparr>"

record bot =
  rune_active :: bool
  rune_pos :: "real \<times> real"

record minimap_info =
  mi_minimap :: image
  mi_rune_active :: bool
  mi_rune_pos :: "real \<times> real"
  mi_path :: "(real \<times> real) list"
  mi_player_pos :: "real \<times> real"

record capture =
  cap_frame :: "image option"
  cap_minimap :: "minimap_info option"
  cap_minimap_ratio :: real
  cap_minimap_sample :: "image option"
  cap_window :: window
  cap_ready :: bool
  cap_calibrated :: bool
  cfg_player_pos :: "real \<times> real"
  cfg_bot :: "bot option"
  cfg_path :: "(real \<times> real) list"

text \<open>
  A numpy slice \<^verbatim>\<open>a[i:j]\<close> of an axis of length \<open>n\<close>: negative bounds count from the
  end, both bounds are cut to the axis, and an inverted slice is empty.
\<close>

definition slice_bound :: "int \<Rightarrow> nat \<Rightarrow> nat" where
  "slice_bound i n = (if i < 0 then nat (max 0 (int n + i)) else min (nat i) n)"

definition crop :: "image \<Rightarrow> int \<Rightarrow> int \<Rightarrow> int \<Rightarrow> int \<Rightarrow> image" where
  "crop f y1 y2 x1 x2 =
     (let ys = slice_bound y1 (img_height f); ye = slice_bound y2 (img_height f);
          xs = slice_bound x1 (img_width f); xe = slice_bound x2 (img_width f)
      in \<lparr>img_height = ye - ys, img_width = xe - xs,
          img_pixel = (\<lambda>r c. img_pixel f (r + ys) (c + xs))\<rparr>)"

text \<open>Python's true division of two integers.\<close>

definition py_truediv :: "int \<Rightarrow> int \<Rightarrow> py_error + real" where
  "py_truediv a b = (if b = 0 then Inl ZeroDivisionError else Inr (real_of_int a / real_of_int b))"

text \<open>The two corners \<^verbatim>\<open>mm_tl\<close> and \<^verbatim>\<open>mm_br\<close> that the loop derives from found anchors.\<close>

definition minimap_tl :: "point \<Rightarrow> point" where
  "minimap_tl tl_pt = (fst tl_pt + MINIMAP_BOTTOM_BORDER, snd tl_pt + MINIMAP_TOP_BORDER)"

definition minimap_br :: "assets \<Rightarrow> point \<Rightarrow> point \<Rightarrow> point" where
  "minimap_br a mm_tl br =
     (max (fst mm_tl + int (PT_WIDTH a)) (fst br - MINIMAP_BOTTOM_BORDER),
      max (snd mm_tl + int (PT_HEIGHT a)) (snd br - MINIMAP_BOTTOM_BORDER))"

text \<open>
  One pass of the outer loop of \<^verbatim>\<open>Capture._main\<close> up to the point where the inner loop
  starts. \<open>window_info\<close> is the result of \<^verbatim>\<open>find_maplestory_window\<close>, \<open>shot\<close> the result of
  \<^verbatim>\<open>self.screenshot()\<close>. The result is the state and, when the inner loop is entered, the
  two corners; an exception leaves the thread.
\<close>

definition calibration_cycle ::
  "assets \<Rightarrow> utils \<Rightarrow> window option \<Rightarrow> image option \<Rightarrow> capture
     \<Rightarrow> py_error + (capture \<times> (point \<times> point) option)" where
  "calibration_cycle a u window_info shot self =
     (let w0 = (case window_info of Some wi \<Rightarrow> wi | None \<Rightarrow> default_window);
          w1 = w0\<lparr>win_width := max (win_width w0) (int (MMT_WIDTH a))\<rparr>;
          w2 = w1\<lparr>win_height := max (win_height w1) (int (MMT_HEIGHT a))\<rparr>;
          s1 = self\<lparr>cap_window := w2, cap_frame := shot\<rparr>
      in case shot of
           None \<Rightarrow> Inr (s1, None)
         | Some frame \<Rightarrow>
            (let tl_pt = fst (single_match u frame (MM_TL_TEMPLATE a));
                 br_pt = snd (single_match u frame (MM_BR_TEMPLATE a))
             in case (tl_pt, br_pt) of
                  (Some tlp, Some brp) \<Rightarrow>
                    (let mm_tl = minimap_tl tlp; mm_br = minimap_br a mm_tl brp in
                     case py_truediv (fst mm_br - fst mm_tl) (snd mm_br - snd mm_tl) of
                       Inl e \<Rightarrow> Inl e
                     | Inr ratio \<Rightarrow>
                         Inr (s1\<lparr>cap_minimap_ratio := ratio,
                                 cap_minimap_sample :=
                                   Some (crop frame (snd mm_tl) (snd mm_br) (fst mm_tl) (fst mm_br)),
                                 cap_calibrated := True\<rparr>,
                              Some (mm_tl, mm_br)))
                | _ \<Rightarrow> Inr (s1, None)))"

text \<open>
  One pass of the inner loop with the corners fixed at calibration. The boolean tells
  whether the loop goes on (\<open>False\<close> is the \<^verbatim>\<open>break\<close>).
\<close>

definition tracking_cycle ::
  "assets \<Rightarrow> utils \<Rightarrow> point \<times> point \<Rightarrow> image option \<Rightarrow> capture \<Rightarrow> capture \<times> bool" where
  "tracking_cycle a u corners shot self =
     (if \<not> cap_calibrated self then (self, False)
      else case shot of
        None \<Rightarrow> (self\<lparr>cap_frame := None\<rparr>, True)
      | Some frame \<Rightarrow>
         (let mm_tl = fst corners; mm_br = snd corners;
              s1 = self\<lparr>cap_frame := Some frame\<rparr>;
              minimap = crop frame (snd mm_tl) (snd mm_br) (fst mm_tl) (fst mm_br);
              player = multi_match u minimap (PLAYER_TEMPLATE a) 0.8;
              s2 = (case player of
                      [] \<Rightarrow> s1
                    | p # ps \<Rightarrow> s1\<lparr>cfg_player_pos := convert_to_relative u p minimap\<rparr>);
              s3 = s2\<lparr>cap_minimap := Some
                       \<lparr>mi_minimap = minimap,
                        mi_rune_active = (case cfg_bot s2 of Some b \<Rightarrow> rune_active b | None \<Rightarrow> False),
                        mi_rune_pos = (case cfg_bot s2 of Some b \<Rightarrow> rune_pos b | None \<Rightarrow> (0, 0)),
                        mi_path = cfg_path s2,
                        mi_player_pos = cfg_player_pos s2\<rparr>\<rparr>
          in (if \<not> cap_ready s3 then s3\<lparr>cap_ready := True\<rparr> else s3, True)))"

section \<open>Auxiliary notions and concrete inputs\<close>

text \<open>
  Inputs on which the definitions are evaluated below: uniform images, the fallback
  templates of \<^verbatim>\<open>capture.py\<close> (20 by 20 anchors, a 16 by 16 player marker), search
  functions with fixed answers, and the initial state of a \<^verbatim>\<open>Capture\<close> object.
\<close>

definition blank :: "nat \<Rightarrow> nat \<Rightarrow> image" where
  "blank h w = \<lparr>img_height = h, img_width = w, img_pixel = (\<lambda>r c. 0)\<rparr>"

definition ex_assets :: assets where
  "ex_assets =
     \<lparr>MM_TL_TEMPLATE = blank 20 20, MM_BR_TEMPLATE = blank 20 20, PLAYER_TEMPLATE = blank 16 16\<rparr>"

definition ex_utils :: "point option \<Rightarrow> point option \<Rightarrow> point list \<Rightarrow> utils" where
  "ex_utils tl_pt br_pt player =
     \<lparr>single_match = (\<lambda>f t. (tl_pt, br_pt)), multi_match = (\<lambda>f t thr. player),
      convert_to_relative =
        (\<lambda>p m. (real_of_int (fst p) / real (img_width m), real_of_int (snd p) / real (img_height m)))\<rparr>"

definition ex_capture :: capture where
  "ex_capture =
     \<lparr>cap_frame = None, cap_minimap = None, cap_minimap_ratio = 1, cap_minimap_sample = None,
      cap_window = default_window, cap_ready = False, cap_calibrated = False,
      cfg_player_pos = (0, 0), cfg_bot = None, cfg_path = []\<rparr>"

text \<open>
  The rectangle as the specification derives it, without the clamp of the program: the
  top-left anchor plus the border insets, the bottom-right anchor minus the border insets.
\<close>

definition spec_derived_width :: "point \<Rightarrow> point \<Rightarrow> int" where
  "spec_derived_width tl_pt br_pt =
     (fst br_pt - MINIMAP_BOTTOM_BORDER) - (fst tl_pt + MINIMAP_BOTTOM_BORDER)"

definition spec_derived_height :: "point \<Rightarrow> point \<Rightarrow> int" where
  "spec_derived_height tl_pt br_pt =
     (snd br_pt - MINIMAP_BOTTOM_BORDER) - (snd tl_pt + MINIMAP_TOP_BORDER)"

text \<open>A store in which the image file of \<^verbatim>\<open>slime\<close> cannot be written.\<close>

definition ex_store :: store where
  "ex_store = \<lparr>files = [], denied = [''slime.png'']\<rparr>"

text \<open>A cache entry with a uniform image, and a matcher with the thresholds of the constructor.\<close>

definition ex_entry :: "nat \<Rightarrow> nat \<Rightarrow> string \<Rightarrow> real \<Rightarrow> cache_entry" where
  "ex_entry h w ty thr =
     \<lparr>ce_image = blank h w,
      ce_metadata = \<lparr>md_name = None, md_type = Some ty, md_created = None,
                     md_threshold = Some thr, md_width = Some w, md_height = Some h\<rparr>,
      ce_height = h, ce_width = w\<rparr>"

definition ex_matcher :: "template_cache \<Rightarrow> matcher" where
  "ex_matcher cache = \<lparr>template_cache = cache, confidence_threshold = 0.7, nms_threshold = 0.3\<rparr>"


text \<open>
  The cache entry that \<^verbatim>\<open>load_template\<close> stores for a name, read off the files of the
  store: none when the image cannot be read or the sidecar cannot be parsed.
\<close>

definition stored_entry :: "store \<Rightarrow> real \<Rightarrow> string \<Rightarrow> cache_entry option" where
  "stored_entry st now n =
     (case imread st (n @ png_suffix) of
        None \<Rightarrow> None
      | Some img \<Rightarrow>
          (if path_exists st (n @ json_suffix)
           then (case json_load st (n @ json_suffix) of
                   Inl e \<Rightarrow> None
                 | Inr md \<Rightarrow> Some \<lparr>ce_image = img, ce_metadata = md,
                                  ce_height = img_height img, ce_width = img_width img\<rparr>)
           else Some \<lparr>ce_image = img, ce_metadata = default_metadata n now,
                      ce_height = img_height img, ce_width = img_width img\<rparr>))"

text \<open>
  A directory with an image without sidecar, an unreadable image, an image with an
  unreadable sidecar, a complete pair and an unrelated file.
\<close>

definition ex_dir :: store where
  "ex_dir =
     \<lparr>files = [(''a.png'', Png_data (blank 16 16)),
               (''b.png'', Garbage),
               (''c.png'', Png_data (blank 8 8)), (''c.json'', Garbage),
               (''d.png'', Png_data (blank 4 4)),
               (''d.json'', Json_data (ce_metadata (ex_entry 4 4 ''monster'' 0.75))),
               (''notes.txt'', Garbage)],
      denied = []\<rparr>"

text \<open>
  Correlation functions with fixed scores and two small libraries, for frames of one or
  two rows. \<open>ex_tm_low\<close> scores 0.6 everywhere; \<open>ex_tm_mixed\<close> puts two monsters side
  by side and a player between them; \<open>ex_tm_chain\<close> puts three monsters in a row, each
  overlapping the next; \<open>ex_tm_pair\<close> puts two overlapping monsters under a player.
\<close>

definition ex_tm_low :: correlation where
  "ex_tm_low f t c r = 0.6"

definition ex_tm_mixed :: correlation where
  "ex_tm_mixed f t c r =
     (if img_width t = 2 then (if c = 0 then 0.95 else if c = 2 then 0.85 else 0)
      else (if c = 1 then 0.9 else 0))"

definition ex_tm_chain :: correlation where
  "ex_tm_chain f t c r = (if c = 0 then 0.9 else if c = 2 then 0.85 else if c = 4 then 0.8 else 0)"

definition ex_tm_pair :: correlation where
  "ex_tm_pair f t c r =
     (if img_width t = 4 then (if c = 0 then 0.9 else if c = 2 then 0.85 else 0)
      else (if c = 1 then 0.8 else 0))"

definition ex_library :: template_cache where
  "ex_library = [(''slime'', ex_entry 2 2 ''monster'' 0.7), (''hero'', ex_entry 2 3 ''player'' 0.7)]"

definition ex_library_wide :: template_cache where
  "ex_library_wide = [(''slime'', ex_entry 1 4 ''monster'' 0.7), (''hero'', ex_entry 1 5 ''player'' 0.7)]"

section \<open>Calibration\<close>

lemma crop_dims:
  assumes "0 \<le> x1" "x1 < int (img_width f)" "x1 < x2" "0 \<le> y1" "y1 < int (img_height f)" "y1 < y2"
  shows "0 < img_height (crop f y1 y2 x1 x2) \<and> 0 < img_width (crop f y1 y2 x1 x2)"
  using assms by (auto simp: crop_def Let_def slice_bound_def min_def)

lemma clamp_dims:
  assumes "0 < PT_WIDTH a" "0 < PT_HEIGHT a"
  shows "int (PT_WIDTH a) \<le> fst (minimap_br a mm_tl brp) - fst mm_tl
       \<and> int (PT_HEIGHT a) \<le> snd (minimap_br a mm_tl brp) - snd mm_tl
       \<and> fst mm_tl < fst (minimap_br a mm_tl brp) \<and> snd mm_tl < snd (minimap_br a mm_tl brp)"
  using assms by (auto simp: minimap_br_def max_def)

lemma calibration_found:
  assumes nz: "snd (minimap_br a (minimap_tl tlp) brp) \<noteq> snd (minimap_tl tlp)"
    and tlp: "fst (single_match u frame (MM_TL_TEMPLATE a)) = Some tlp"
    and brp: "snd (single_match u frame (MM_BR_TEMPLATE a)) = Some brp"
  shows "\<exists>s'. calibration_cycle a u wi (Some frame) s
          = Inr (s', Some (minimap_tl tlp, minimap_br a (minimap_tl tlp) brp))
    \<and> cap_calibrated s'
    \<and> Inr (cap_minimap_ratio s')
        = py_truediv (fst (minimap_br a (minimap_tl tlp) brp) - fst (minimap_tl tlp))
            (snd (minimap_br a (minimap_tl tlp) brp) - snd (minimap_tl tlp))
    \<and> cap_minimap_sample s'
        = Some (crop frame (snd (minimap_tl tlp)) (snd (minimap_br a (minimap_tl tlp) brp))
                  (fst (minimap_tl tlp)) (fst (minimap_br a (minimap_tl tlp) brp)))"
  using assms by (simp add: calibration_cycle_def Let_def py_truediv_def)

lemma calibration_not_found:
  assumes "fst (single_match u frame (MM_TL_TEMPLATE a)) = None
         \<or> snd (single_match u frame (MM_BR_TEMPLATE a)) = None"
  shows "\<exists>s'. calibration_cycle a u wi (Some frame) s = Inr (s', None)
             \<and> cap_calibrated s' = cap_calibrated s"
  using assms by (auto simp: calibration_cycle_def Let_def split: option.splits)

lemma calibration_no_frame:
  "\<exists>s'. calibration_cycle a u wi None s = Inr (s', None) \<and> cap_calibrated s' = cap_calibrated s"
  by (auto simp: calibration_cycle_def Let_def split: option.splits)

lemma tracking_publishes_crop:
  assumes "cap_calibrated s"
  shows "map_option mi_minimap (cap_minimap (fst (tracking_cycle a u (mm_tl, mm_br) (Some frame) s)))
       = Some (crop frame (snd mm_tl) (snd mm_br) (fst mm_tl) (fst mm_br))"
  using assms by (simp add: tracking_cycle_def Let_def split: list.splits)

text \<open>
  Claim C9. Whenever the capture loop derives a minimap rectangle from found anchors, the
  bottom-right corner is the maximum of the top-left corner plus the size of the player
  template and the bottom-right anchor minus its inset. So the rectangle is at least as
  wide and as high as the player template, the division for the aspect ratio does not
  raise, and the crop stored at calibration and the crop published by the tracking loop
  (on a frame of the same size) have a positive height and width. The top-left corner is
  taken to lie inside the frame, as it does for a match position of an anchor template
  wider than its inset.
\<close>

theorem calibration_rectangle_clamped:
  assumes pt: "0 < PT_WIDTH a" "0 < PT_HEIGHT a"
    and tlp: "fst (single_match u frame (MM_TL_TEMPLATE a)) = Some tlp"
    and brp: "snd (single_match u frame (MM_BR_TEMPLATE a)) = Some brp"
    and inside: "0 \<le> fst tlp" "fst tlp + MINIMAP_BOTTOM_BORDER < int (img_width frame)"
                "0 \<le> snd tlp" "snd tlp + MINIMAP_TOP_BORDER < int (img_height frame)"
    and same: "img_height frame' = img_height frame" "img_width frame' = img_width frame"
  shows "\<exists>s' mm_tl mm_br sample published.
      calibration_cycle a u wi (Some frame) s = Inr (s', Some (mm_tl, mm_br))
    \<and> mm_br = (max (fst mm_tl + int (PT_WIDTH a)) (fst brp - MINIMAP_BOTTOM_BORDER),
               max (snd mm_tl + int (PT_HEIGHT a)) (snd brp - MINIMAP_BOTTOM_BORDER))
    \<and> int (PT_WIDTH a) \<le> fst mm_br - fst mm_tl
    \<and> int (PT_HEIGHT a) \<le> snd mm_br - snd mm_tl
    \<and> py_truediv (fst mm_br - fst mm_tl) (snd mm_br - snd mm_tl) = Inr (cap_minimap_ratio s')
    \<and> cap_minimap_sample s' = Some sample
    \<and> 0 < img_height sample \<and> 0 < img_width sample
    \<and> map_option mi_minimap (cap_minimap (fst (tracking_cycle a u (mm_tl, mm_br) (Some frame') s')))
        = Some published
    \<and> 0 < img_height published \<and> 0 < img_width published"
proof -
  let ?tl = "minimap_tl tlp"
  let ?br = "minimap_br a ?tl brp"
  have dims: "int (PT_WIDTH a) \<le> fst ?br - fst ?tl" "int (PT_HEIGHT a) \<le> snd ?br - snd ?tl"
    "fst ?tl < fst ?br" "snd ?tl < snd ?br"
    using clamp_dims [OF pt, of ?tl brp] by simp_all
  have nz: "snd ?br \<noteq> snd ?tl" using dims by simp
  from calibration_found [OF nz tlp brp, of wi s]
  obtain s' where s': "calibration_cycle a u wi (Some frame) s = Inr (s', Some (?tl, ?br))"
    "cap_calibrated s'"
    "Inr (cap_minimap_ratio s') = py_truediv (fst ?br - fst ?tl) (snd ?br - snd ?tl)"
    "cap_minimap_sample s' = Some (crop frame (snd ?tl) (snd ?br) (fst ?tl) (fst ?br))"
    by blast
  have tl_in: "0 \<le> fst ?tl" "fst ?tl < int (img_width frame)" "0 \<le> snd ?tl" "snd ?tl < int (img_height frame)"
    using inside by (simp_all add: minimap_tl_def MINIMAP_BOTTOM_BORDER_def MINIMAP_TOP_BORDER_def)
  have c1: "0 < img_height (crop frame (snd ?tl) (snd ?br) (fst ?tl) (fst ?br))
          \<and> 0 < img_width (crop frame (snd ?tl) (snd ?br) (fst ?tl) (fst ?br))"
    using crop_dims tl_in dims by blast
  have c2: "0 < img_height (crop frame' (snd ?tl) (snd ?br) (fst ?tl) (fst ?br))
          \<and> 0 < img_width (crop frame' (snd ?tl) (snd ?br) (fst ?tl) (fst ?br))"
    using crop_dims [of "fst ?tl" frame' "fst ?br" "snd ?tl" "snd ?br"] tl_in dims same by simp
  have br_eq: "?br = (max (fst ?tl + int (PT_WIDTH a)) (fst brp - MINIMAP_BOTTOM_BORDER),
               max (snd ?tl + int (PT_HEIGHT a)) (snd brp - MINIMAP_BOTTOM_BORDER))"
    by (simp add: minimap_br_def)
  show ?thesis
    using s' dims c1 c2 br_eq tracking_publishes_crop [OF s'(2), of a u ?tl ?br frame']
    by (metis fst_conv snd_conv)
qed

theorem calibration_rectangle_clamped_witness:
  "0 < PT_WIDTH ex_assets \<and> 0 < PT_HEIGHT ex_assets
   \<and> (50 :: int) + MINIMAP_BOTTOM_BORDER < int (img_width (blank 800 1000))
   \<and> (50 :: int) + MINIMAP_TOP_BORDER < int (img_height (blank 800 1000))
   \<and> spec_derived_width (50, 50) (40, 40) < 0
   \<and> (\<exists>s' mm_tl mm_br sample published.
        calibration_cycle ex_assets (ex_utils (Some (50, 50)) (Some (40, 40)) []) None
          (Some (blank 800 1000)) ex_capture = Inr (s', Some (mm_tl, mm_br))
      \<and> 16 \<le> fst mm_br - fst mm_tl \<and> 16 \<le> snd mm_br - snd mm_tl
      \<and> py_truediv (fst mm_br - fst mm_tl) (snd mm_br - snd mm_tl) = Inr (cap_minimap_ratio s')
      \<and> cap_minimap_sample s' = Some sample \<and> 0 < img_height sample \<and> 0 < img_width sample
      \<and> map_option mi_minimap (cap_minimap (fst (tracking_cycle ex_assets
            (ex_utils (Some (50, 50)) (Some (40, 40)) []) (mm_tl, mm_br) (Some (blank 800 1000)) s')))
          = Some published
      \<and> 0 < img_height published \<and> 0 < img_width published)"
proof -
  let ?u = "ex_utils (Some (50, 50)) (Some (40, 40)) []"
  have pt: "0 < PT_WIDTH ex_assets" "0 < PT_HEIGHT ex_assets"
    by (simp_all add: ex_assets_def blank_def PT_WIDTH_def PT_HEIGHT_def)
  have found: "fst (single_match ?u (blank 800 1000) (MM_TL_TEMPLATE ex_assets)) = Some (50, 50)"
    "snd (single_match ?u (blank 800 1000) (MM_BR_TEMPLATE ex_assets)) = Some (40, 40)"
    by (simp_all add: ex_utils_def)
  have inside: "0 \<le> fst ((50, 50) :: point)"
    "fst ((50, 50) :: point) + MINIMAP_BOTTOM_BORDER < int (img_width (blank 800 1000))"
    "0 \<le> snd ((50, 50) :: point)"
    "snd ((50, 50) :: point) + MINIMAP_TOP_BORDER < int (img_height (blank 800 1000))"
    by (simp_all add: blank_def MINIMAP_BOTTOM_BORDER_def MINIMAP_TOP_BORDER_def)
  have inv: "spec_derived_width (50, 50) (40, 40) < 0"
    by (simp add: spec_derived_width_def MINIMAP_BOTTOM_BORDER_def)
  have sz: "int (PT_WIDTH ex_assets) = 16" "int (PT_HEIGHT ex_assets) = 16"
    by (simp_all add: ex_assets_def blank_def PT_WIDTH_def PT_HEIGHT_def)
  from calibration_rectangle_clamped [OF pt found inside refl refl, of None ex_capture]
  show ?thesis using pt inside inv unfolding sz by (simp only: fst_conv snd_conv) blast
qed

text \<open>
  Claim C1, as stated, fails. With the top-left anchor found at (100, 100) and the
  bottom-right anchor at (50, 50) the rectangle derived from the anchors and the insets is
  inverted, yet the loop sets \<^verbatim>\<open>calibrated\<close> and goes on with the clamped rectangle from
  (109, 105) to (125, 121).
\<close>

theorem calibration_inverted_rectangle_accepted:
  "\<not> cap_calibrated ex_capture
   \<and> spec_derived_width (100, 100) (50, 50) < int (PT_WIDTH ex_assets)
   \<and> spec_derived_height (100, 100) (50, 50) < int (PT_HEIGHT ex_assets)
   \<and> spec_derived_width (100, 100) (50, 50) < 0
   \<and> \<not> isl (calibration_cycle ex_assets (ex_utils (Some (100, 100)) (Some (50, 50)) []) None
              (Some (blank 800 1000)) ex_capture)
   \<and> cap_calibrated (fst (projr (calibration_cycle ex_assets
         (ex_utils (Some (100, 100)) (Some (50, 50)) []) None (Some (blank 800 1000)) ex_capture)))
   \<and> snd (projr (calibration_cycle ex_assets
         (ex_utils (Some (100, 100)) (Some (50, 50)) []) None (Some (blank 800 1000)) ex_capture))
       = Some ((109, 105), (125, 121))"
  by (simp add: calibration_cycle_def Let_def minimap_br_def minimap_tl_def py_truediv_def
      ex_assets_def ex_utils_def ex_capture_def blank_def PT_WIDTH_def PT_HEIGHT_def
      MINIMAP_BOTTOM_BORDER_def MINIMAP_TOP_BORDER_def spec_derived_width_def spec_derived_height_def)

text \<open>
  Claim C1, amended. From an uncalibrated state one calibration pass sets
  \<^verbatim>\<open>calibrated\<close> exactly when a frame was captured and both anchors were found. The
  rectangle is then the top-left anchor plus its insets and, as bottom-right corner, the
  maximum of that corner plus the size of the player template and the bottom-right anchor
  minus its inset: a derived rectangle smaller than the player template, inverted ones
  included, is clamped to the size of the player template and not rejected. In every
  other case the pass leaves the state uncalibrated and hands over no rectangle.
\<close>

theorem calibrated_iff_anchors_found:
  assumes pt: "0 < PT_WIDTH a" "0 < PT_HEIGHT a"
    and unc: "\<not> cap_calibrated s"
  shows "\<exists>s' r. calibration_cycle a u wi shot s = Inr (s', r)
    \<and> (cap_calibrated s' \<longleftrightarrow>
         (\<exists>frame tlp brp. shot = Some frame
            \<and> fst (single_match u frame (MM_TL_TEMPLATE a)) = Some tlp
            \<and> snd (single_match u frame (MM_BR_TEMPLATE a)) = Some brp))
    \<and> (\<forall>frame tlp brp. shot = Some frame
            \<and> fst (single_match u frame (MM_TL_TEMPLATE a)) = Some tlp
            \<and> snd (single_match u frame (MM_BR_TEMPLATE a)) = Some brp
         \<longrightarrow> r = Some (minimap_tl tlp,
                  (max (fst (minimap_tl tlp) + int (PT_WIDTH a)) (fst brp - MINIMAP_BOTTOM_BORDER),
                   max (snd (minimap_tl tlp) + int (PT_HEIGHT a)) (snd brp - MINIMAP_BOTTOM_BORDER))))
    \<and> (\<not> cap_calibrated s' \<longrightarrow> r = None)"
proof (cases shot)
  case None
  then show ?thesis using calibration_no_frame [of a u wi s] unc by auto
next
  case (Some frame)
  show ?thesis
  proof (cases "fst (single_match u frame (MM_TL_TEMPLATE a)) = None
              \<or> snd (single_match u frame (MM_BR_TEMPLATE a)) = None")
    case True
    then show ?thesis using calibration_not_found [OF True, of wi s] unc Some by auto
  next
    case False
    then obtain tlp brp where f: "fst (single_match u frame (MM_TL_TEMPLATE a)) = Some tlp"
      "snd (single_match u frame (MM_BR_TEMPLATE a)) = Some brp" by auto
    have nz: "snd (minimap_br a (minimap_tl tlp) brp) \<noteq> snd (minimap_tl tlp)"
      using clamp_dims [OF pt, of "minimap_tl tlp" brp] by simp
    from calibration_found [OF nz f, of wi s] show ?thesis
      using Some f by (auto simp: minimap_br_def)
  qed
qed

theorem calibrated_iff_anchors_found_witness:
  "0 < PT_WIDTH ex_assets \<and> 0 < PT_HEIGHT ex_assets \<and> \<not> cap_calibrated ex_capture
   \<and> (\<exists>s'. calibration_cycle ex_assets (ex_utils (Some (100, 100)) (Some (50, 50)) []) None
             (Some (blank 800 1000)) ex_capture = Inr (s', Some ((109, 105), (125, 121)))
           \<and> cap_calibrated s')
   \<and> (\<exists>s'. calibration_cycle ex_assets (ex_utils None (Some (50, 50)) []) None
             (Some (blank 800 1000)) ex_capture = Inr (s', None)
           \<and> \<not> cap_calibrated s')"
proof -
  have pt: "0 < PT_WIDTH ex_assets" "0 < PT_HEIGHT ex_assets"
    by (simp_all add: ex_assets_def blank_def PT_WIDTH_def PT_HEIGHT_def)
  have unc: "\<not> cap_calibrated ex_capture" by (simp add: ex_capture_def)
  have sz: "int (PT_WIDTH ex_assets) = 16" "int (PT_HEIGHT ex_assets) = 16"
    by (simp_all add: ex_assets_def blank_def PT_WIDTH_def PT_HEIGHT_def)
  have a: "\<exists>s'. calibration_cycle ex_assets (ex_utils (Some (100, 100)) (Some (50, 50)) []) None
             (Some (blank 800 1000)) ex_capture = Inr (s', Some ((109, 105), (125, 121)))
           \<and> cap_calibrated s'"
    using calibrated_iff_anchors_found [OF pt unc, of "ex_utils (Some (100, 100)) (Some (50, 50)) []"
        None "Some (blank 800 1000)"]
    unfolding sz
    by (simp add: ex_utils_def minimap_tl_def MINIMAP_BOTTOM_BORDER_def MINIMAP_TOP_BORDER_def)
  have b: "\<exists>s'. calibration_cycle ex_assets (ex_utils None (Some (50, 50)) []) None
             (Some (blank 800 1000)) ex_capture = Inr (s', None) \<and> \<not> cap_calibrated s'"
    using calibrated_iff_anchors_found [OF pt unc, of "ex_utils None (Some (50, 50)) []"
        None "Some (blank 800 1000)"]
    by (simp add: ex_utils_def) blast
  show ?thesis using pt unc a b by blast
qed

section \<open>Tracking\<close>

text \<open>
  Claim C8. In a tracking pass of a calibrated loop in which \<^verbatim>\<open>multi_match\<close> finds no
  player marker in the minimap crop, \<^verbatim>\<open>config.player_pos\<close> keeps its value, the published
  dictionary carries that same value, \<^verbatim>\<open>calibrated\<close> stays set and the loop goes on. A
  pass whose screenshot failed searches nothing and changes neither.
\<close>

theorem missed_player_keeps_position:
  assumes "cap_calibrated s"
    and "multi_match u (crop frame (snd mm_tl) (snd mm_br) (fst mm_tl) (fst mm_br))
           (PLAYER_TEMPLATE a) 0.8 = []"
  shows "cfg_player_pos (fst (tracking_cycle a u (mm_tl, mm_br) (Some frame) s)) = cfg_player_pos s
     \<and> map_option mi_player_pos (cap_minimap (fst (tracking_cycle a u (mm_tl, mm_br) (Some frame) s)))
         = Some (cfg_player_pos s)
     \<and> cap_calibrated (fst (tracking_cycle a u (mm_tl, mm_br) (Some frame) s))
     \<and> snd (tracking_cycle a u (mm_tl, mm_br) (Some frame) s)
     \<and> cfg_player_pos (fst (tracking_cycle a u (mm_tl, mm_br) None s)) = cfg_player_pos s
     \<and> cap_calibrated (fst (tracking_cycle a u (mm_tl, mm_br) None s))"
  using assms by (simp add: tracking_cycle_def Let_def)

theorem missed_player_keeps_position_witness:
  "cap_calibrated (ex_capture\<lparr>cap_calibrated := True, cfg_player_pos := (1/4, 1/2)\<rparr>)
   \<and> multi_match (ex_utils (Some (50, 50)) (Some (400, 300)) [])
        (crop (blank 800 1000) 55 291 59 391) (PLAYER_TEMPLATE ex_assets) 0.8 = []
   \<and> cfg_player_pos (fst (tracking_cycle ex_assets (ex_utils (Some (50, 50)) (Some (400, 300)) [])
        ((59, 55), (391, 291)) (Some (blank 800 1000))
        (ex_capture\<lparr>cap_calibrated := True, cfg_player_pos := (1/4, 1/2)\<rparr>))) = (1/4, 1/2)
   \<and> map_option mi_player_pos (cap_minimap (fst (tracking_cycle ex_assets
        (ex_utils (Some (50, 50)) (Some (400, 300)) [])
        ((59, 55), (391, 291)) (Some (blank 800 1000))
        (ex_capture\<lparr>cap_calibrated := True, cfg_player_pos := (1/4, 1/2)\<rparr>)))) = Some (1/4, 1/2)
   \<and> cap_calibrated (fst (tracking_cycle ex_assets (ex_utils (Some (50, 50)) (Some (400, 300)) [])
        ((59, 55), (391, 291)) (Some (blank 800 1000))
        (ex_capture\<lparr>cap_calibrated := True, cfg_player_pos := (1/4, 1/2)\<rparr>)))"
  using missed_player_keeps_position [of "ex_capture\<lparr>cap_calibrated := True, cfg_player_pos := (1/4, 1/2)\<rparr>"
      "ex_utils (Some (50, 50)) (Some (400, 300)) []" "blank 800 1000" "(59, 55)" "(391, 291)" ex_assets]
  by (simp add: ex_utils_def ex_capture_def)

section \<open>Templates larger than the frame\<close>





section \<open>Deleting and saving\<close>

text \<open>
  Claim C10. Deleting a name that has no image file, no metadata file and no cache entry
  returns \<^verbatim>\<open>True\<close> and leaves store and cache as they are; and \<^verbatim>\<open>delete_template\<close>
  returns \<^verbatim>\<open>False\<close> only when removing an existing image or metadata file raised.
\<close>

theorem delete_missing_template:
  "(\<not> path_exists st (name @ png_suffix) \<and> \<not> path_exists st (name @ json_suffix)
      \<and> map_of cache name = None
      \<longrightarrow> delete_template st cache name = (True, st, cache))
   \<and> (\<not> fst (delete_template st cache name)
      \<longrightarrow> (path_exists st (name @ png_suffix) \<and> unlink st (name @ png_suffix) = Inl OSError)
        \<or> (path_exists st (name @ json_suffix) \<and> unlink st (name @ json_suffix) = Inl OSError))"
  by (auto simp: delete_template_def Let_def unlink_def path_exists_def delete_conv
      split: if_splits sum.splits)

theorem delete_missing_template_witness:
  "\<not> path_exists \<lparr>files = [(''slime.png'', Garbage)], denied = []\<rparr> (''ghost'' @ png_suffix)
   \<and> delete_template \<lparr>files = [(''slime.png'', Garbage)], denied = []\<rparr>
        [(''slime'', ex_entry 16 16 ''monster'' 0.7)] ''ghost''
      = (True, \<lparr>files = [(''slime.png'', Garbage)], denied = []\<rparr>,
         [(''slime'', ex_entry 16 16 ''monster'' 0.7)])
   \<and> \<not> fst (delete_template \<lparr>files = [(''slime.png'', Garbage)], denied = [''slime.png'']\<rparr>
        [(''slime'', ex_entry 16 16 ''monster'' 0.7)] ''slime'')
   \<and> unlink \<lparr>files = [(''slime.png'', Garbage)], denied = [''slime.png'']\<rparr> (''slime'' @ png_suffix)
      = Inl OSError"
  using delete_missing_template [of "\<lparr>files = [(''slime.png'', Garbage)], denied = []\<rparr>" "''ghost''"
      "[(''slime'', ex_entry 16 16 ''monster'' 0.7)]"]
    delete_missing_template [of "\<lparr>files = [(''slime.png'', Garbage)], denied = [''slime.png'']\<rparr>"
      "''slime''" "[(''slime'', ex_entry 16 16 ''monster'' 0.7)]"]
  by (simp add: path_exists_def png_suffix_def json_suffix_def delete_template_def unlink_def Let_def)

lemma save_template_failure_keeps_cache:
  "\<not> fst (save_template st now cache img name ty thr)
     \<Longrightarrow> snd (snd (save_template st now cache img name ty thr)) = cache"
  by (auto simp: save_template_def Let_def split: sum.splits prod.splits)

text \<open>
  Claim C4 fails on the program. When \<^verbatim>\<open>cv2.imwrite\<close> cannot write the image it returns
  \<^verbatim>\<open>False\<close>; \<^verbatim>\<open>save_template\<close> drops that value, writes the metadata, adds the template
  to the cache and returns \<^verbatim>\<open>True\<close>, although the store holds no image file.
\<close>

theorem save_template_unreported_image_failure:
  "imwrite ex_store ''slime.png'' (blank 16 16) = Inr (False, ex_store)
   \<and> fst (save_template ex_store 0 [] (blank 16 16) ''slime'' ''monster'' 0.75)
   \<and> map_of (snd (snd (save_template ex_store 0 [] (blank 16 16) ''slime'' ''monster'' 0.75))) ''slime''
       \<noteq> None
   \<and> \<not> path_exists (fst (snd (save_template ex_store 0 [] (blank 16 16) ''slime'' ''monster'' 0.75)))
         ''slime.png''"
  by (simp add: save_template_def imwrite_def json_dump_def ex_store_def blank_def png_suffix_def
      json_suffix_def path_exists_def Let_def)

section \<open>Loading the library\<close>

lemma load_template_result:
  "load_template st now n cache lg =
     (case stored_entry st now n of
        Some e \<Rightarrow> (True, AList.update n e cache, lg @ [(Debug, n)])
      | None \<Rightarrow> (False, cache,
                 lg @ [(if imread st (n @ png_suffix) = None then Warning else Error, n)]))"
  by (auto simp: load_template_def stored_entry_def Let_def imread_def path_exists_def
      split: option.splits sum.splits file_content.splits)

lemma load_loop_cache:
  "map_of (fst (load_loop st now ns cache lg)) k =
     (if k \<in> set ns
      then (case stored_entry st now k of Some e \<Rightarrow> Some e | None \<Rightarrow> map_of cache k)
      else map_of cache k)"
proof (induction ns arbitrary: cache lg)
  case Nil
  then show ?case by simp
next
  case (Cons n ns)
  show ?case
    by (cases "stored_entry st now n")
       (auto simp: load_template_result Cons.IH update_conv' split: option.splits)
qed

lemma load_loop_log_mono: "set lg \<subseteq> set (snd (load_loop st now ns cache lg))"
proof (induction ns arbitrary: cache lg)
  case Nil
  then show ?case by simp
next
  case (Cons n ns)
  show ?case
  proof (cases "stored_entry st now n")
    case None
    then show ?thesis using Cons.IH [of "lg @ [(if imread st (n @ png_suffix) = None then Warning else Error, n)]" cache]
      by (auto simp: load_template_result)
  next
    case (Some e)
    then show ?thesis using Cons.IH [of "lg @ [(Debug, n)]" "AList.update n e cache"]
      by (auto simp: load_template_result)
  qed
qed

lemma load_loop_log_failure:
  "k \<in> set ns \<Longrightarrow> stored_entry st now k = None
     \<Longrightarrow> (if imread st (k @ png_suffix) = None then Warning else Error, k)
           \<in> set (snd (load_loop st now ns cache lg))"
proof (induction ns arbitrary: cache lg)
  case Nil
  then show ?case by simp
next
  case (Cons n ns)
  show ?case
  proof (cases "k = n")
    case True
    then show ?thesis
      using Cons.prems load_loop_log_mono [of "lg @ [(if imread st (n @ png_suffix) = None then Warning else Error, n)]" st now ns cache]
      by (auto simp: load_template_result)
  next
    case False
    then have "k \<in> set ns" using Cons.prems by simp
    then show ?thesis using Cons.IH Cons.prems(2)
      by (cases "stored_entry st now n") (auto simp: load_template_result)
  qed
qed

text \<open>
  Claim C5. \<^verbatim>\<open>load_all_templates\<close> starts from an empty cache, so a name without an image
  file in the directory has no entry afterwards, whatever the cache held before. For
  every image file of the directory: a readable image without sidecar is cached with the
  default metadata (type \<^verbatim>\<open>unknown\<close>, threshold 0.7); a readable image with a readable
  sidecar is cached with that metadata; an unreadable image is skipped and a warning is
  logged; a readable image with an unreadable sidecar is skipped and an error record is
  logged. The statement holds for each file whatever the other files are, so one bad file
  does not stop the loading of the others.
\<close>

theorem load_all_templates_skips_bad_files:
  "(k \<notin> set (glob_png st) \<longrightarrow> map_of (fst (load_all_templates st now cache lg)) k = None)
   \<and> (n \<in> set (glob_png st) \<longrightarrow>
        (\<forall>img. imread st (n @ png_suffix) = Some img \<and> \<not> path_exists st (n @ json_suffix)
           \<longrightarrow> map_option ce_image (map_of (fst (load_all_templates st now cache lg)) n) = Some img
             \<and> map_option ce_metadata (map_of (fst (load_all_templates st now cache lg)) n)
                 = Some (default_metadata n now)
             \<and> md_type (default_metadata n now) = Some ''unknown''
             \<and> md_threshold (default_metadata n now) = Some 0.7)
      \<and> (\<forall>img md. imread st (n @ png_suffix) = Some img \<and> json_load st (n @ json_suffix) = Inr md
           \<longrightarrow> map_option ce_image (map_of (fst (load_all_templates st now cache lg)) n) = Some img
             \<and> map_option ce_metadata (map_of (fst (load_all_templates st now cache lg)) n) = Some md)
      \<and> (imread st (n @ png_suffix) = None
           \<longrightarrow> map_of (fst (load_all_templates st now cache lg)) n = None
             \<and> (Warning, n) \<in> set (snd (load_all_templates st now cache lg)))
      \<and> (imread st (n @ png_suffix) \<noteq> None \<and> path_exists st (n @ json_suffix)
           \<and> isl (json_load st (n @ json_suffix))
           \<longrightarrow> map_of (fst (load_all_templates st now cache lg)) n = None
             \<and> (Error, n) \<in> set (snd (load_all_templates st now cache lg))))"
proof -
  obtain c l where r: "load_loop st now (glob_png st) [] lg = (c, l)" by (cases "load_loop st now (glob_png st) [] lg")
  have c: "map_of c k' = (if k' \<in> set (glob_png st) then stored_entry st now k' else None)" for k'
    using load_loop_cache [of st now "glob_png st" "[]" lg k'] r by (simp split: option.splits)
  have l: "k' \<in> set (glob_png st) \<Longrightarrow> stored_entry st now k' = None
     \<Longrightarrow> (if imread st (k' @ png_suffix) = None then Warning else Error, k') \<in> set l" for k'
    using load_loop_log_failure [of k' "glob_png st" st now "[]" lg] r by simp
  have res: "fst (load_all_templates st now cache lg) = c"
    "set l \<subseteq> set (snd (load_all_templates st now cache lg))"
    using r by (auto simp: load_all_templates_def)
  have json_exists: "json_load st p = Inr md \<Longrightarrow> path_exists st p" for p md
    by (auto simp: json_load_def path_exists_def split: option.splits)
  show ?thesis
  proof (intro conjI impI allI)
    show "map_of (fst (load_all_templates st now cache lg)) k = None" if "k \<notin> set (glob_png st)"
      using that c res by simp
  next
    fix img assume n: "n \<in> set (glob_png st)"
      and h: "imread st (n @ png_suffix) = Some img \<and> \<not> path_exists st (n @ json_suffix)"
    then have "stored_entry st now n = Some \<lparr>ce_image = img, ce_metadata = default_metadata n now,
                      ce_height = img_height img, ce_width = img_width img\<rparr>"
      by (simp add: stored_entry_def)
    then show "map_option ce_image (map_of (fst (load_all_templates st now cache lg)) n) = Some img"
      "map_option ce_metadata (map_of (fst (load_all_templates st now cache lg)) n)
                 = Some (default_metadata n now)"
      using c n res by simp_all
    show "md_type (default_metadata n now) = Some ''unknown''"
      "md_threshold (default_metadata n now) = Some 0.7"
      by (simp_all add: default_metadata_def)
  next
    fix img md assume n: "n \<in> set (glob_png st)"
      and h: "imread st (n @ png_suffix) = Some img \<and> json_load st (n @ json_suffix) = Inr md"
    then have "stored_entry st now n = Some \<lparr>ce_image = img, ce_metadata = md,
                      ce_height = img_height img, ce_width = img_width img\<rparr>"
      using json_exists [of "n @ json_suffix" md] by (simp add: stored_entry_def)
    then show "map_option ce_image (map_of (fst (load_all_templates st now cache lg)) n) = Some img"
      "map_option ce_metadata (map_of (fst (load_all_templates st now cache lg)) n) = Some md"
      using c n res by simp_all
  next
    assume n: "n \<in> set (glob_png st)" and h: "imread st (n @ png_suffix) = None"
    then have e: "stored_entry st now n = None" by (simp add: stored_entry_def)
    show "map_of (fst (load_all_templates st now cache lg)) n = None" using e c n res by simp
    show "(Warning, n) \<in> set (snd (load_all_templates st now cache lg))"
      using l [OF n e] h res by auto
  next
    assume n: "n \<in> set (glob_png st)"
      and h: "imread st (n @ png_suffix) \<noteq> None \<and> path_exists st (n @ json_suffix)
           \<and> isl (json_load st (n @ json_suffix))"
    then have e: "stored_entry st now n = None"
      by (auto simp: stored_entry_def split: sum.splits)
    show "map_of (fst (load_all_templates st now cache lg)) n = None" using e c n res by simp
    show "(Error, n) \<in> set (snd (load_all_templates st now cache lg))"
      using l [OF n e] h res by auto
  qed
qed

theorem load_all_templates_skips_bad_files_witness:
  "glob_png ex_dir = [''a'', ''b'', ''c'', ''d'']
   \<and> map_of (fst (load_all_templates ex_dir 0 [(''old'', ex_entry 16 16 ''monster'' 0.7)] [])) ''old'' = None
   \<and> map_option ce_metadata
        (map_of (fst (load_all_templates ex_dir 0 [(''old'', ex_entry 16 16 ''monster'' 0.7)] [])) ''a'')
       = Some (default_metadata ''a'' 0)
   \<and> map_of (fst (load_all_templates ex_dir 0 [(''old'', ex_entry 16 16 ''monster'' 0.7)] [])) ''b'' = None
   \<and> (Warning, ''b'') \<in> set (snd (load_all_templates ex_dir 0 [(''old'', ex_entry 16 16 ''monster'' 0.7)] []))
   \<and> map_of (fst (load_all_templates ex_dir 0 [(''old'', ex_entry 16 16 ''monster'' 0.7)] [])) ''c'' = None
   \<and> (Error, ''c'') \<in> set (snd (load_all_templates ex_dir 0 [(''old'', ex_entry 16 16 ''monster'' 0.7)] []))
   \<and> map_option ce_metadata
        (map_of (fst (load_all_templates ex_dir 0 [(''old'', ex_entry 16 16 ''monster'' 0.7)] [])) ''d'')
       = Some (ce_metadata (ex_entry 4 4 ''monster'' 0.75))"
proof -
  let ?c = "[(''old'', ex_entry 16 16 ''monster'' 0.7)]"
  note ev = ex_dir_def imread_def path_exists_def json_load_def png_suffix_def json_suffix_def
  have g: "glob_png ex_dir = [''a'', ''b'', ''c'', ''d'']"
    by (simp add: ex_dir_def glob_png_def is_png_def stem_def png_suffix_def)
  have a: "map_of (fst (load_all_templates ex_dir 0 ?c [])) ''old'' = None
      \<and> map_option ce_metadata (map_of (fst (load_all_templates ex_dir 0 ?c [])) ''a'')
          = Some (default_metadata ''a'' 0)"
    using load_all_templates_skips_bad_files [of "''old''" ex_dir 0 ?c "[]" "''a''"]
    unfolding g by (simp add: ev)
  have b: "map_of (fst (load_all_templates ex_dir 0 ?c [])) ''b'' = None
      \<and> (Warning, ''b'') \<in> set (snd (load_all_templates ex_dir 0 ?c []))"
    using load_all_templates_skips_bad_files [of "''old''" ex_dir 0 ?c "[]" "''b''"]
    unfolding g by (simp add: ev)
  have c: "map_of (fst (load_all_templates ex_dir 0 ?c [])) ''c'' = None
      \<and> (Error, ''c'') \<in> set (snd (load_all_templates ex_dir 0 ?c []))"
    using load_all_templates_skips_bad_files [of "''old''" ex_dir 0 ?c "[]" "''c''"]
    unfolding g by (simp add: ev)
  have d: "map_option ce_metadata (map_of (fst (load_all_templates ex_dir 0 ?c [])) ''d'')
       = Some (ce_metadata (ex_entry 4 4 ''monster'' 0.75))"
    using load_all_templates_skips_bad_files [of "''old''" ex_dir 0 ?c "[]" "''d''"]
    unfolding g by (simp add: ev)
  show ?thesis using g a b c d by blast
qed

section \<open>Matching and overlap suppression\<close>

lemma rectOverlap_sym: "rectOverlap a b = rectOverlap b a"
  by (cases a; cases b)
     (simp add: rectOverlap_def jaccardDistance_def box_inter_def box_area_def Let_def
        max.commute min.commute add.commute)

lemma NMSFast_set: "set (NMSFast bboxes thr cands kept) \<subseteq> set kept \<union> snd ` set cands"
proof (induction cands arbitrary: kept)
  case Nil
  then show ?case by simp
next
  case (Cons p cands)
  show ?case using Cons.IH [of "kept @ [snd p]"] Cons.IH [of kept]
    by (auto simp: Let_def)
qed

lemma NMSFast_pairwise:
  "sorted_wrt (\<lambda>i j. rectOverlap (bboxes ! j) (bboxes ! i) \<le> thr) kept
     \<Longrightarrow> sorted_wrt (\<lambda>i j. rectOverlap (bboxes ! j) (bboxes ! i) \<le> thr) (NMSFast bboxes thr cands kept)"
proof (induction cands arbitrary: kept)
  case Nil
  then show ?case by simp
next
  case (Cons p cands)
  show ?case
  proof (cases "list_all (\<lambda>k. rectOverlap (bboxes ! snd p) (bboxes ! k) \<le> thr) kept")
    case True
    then have "sorted_wrt (\<lambda>i j. rectOverlap (bboxes ! j) (bboxes ! i) \<le> thr) (kept @ [snd p])"
      using Cons.prems by (simp add: sorted_wrt_append list_all_iff)
    then show ?thesis using Cons.IH [of "kept @ [snd p]"] True by (simp add: Let_def)
  next
    case False
    then show ?thesis using Cons.IH [OF Cons.prems] by (simp add: Let_def)
  qed
qed

lemma GetMaxScoreIndex_range: "snd ` set (GetMaxScoreIndex scores thr) \<subseteq> {..< length scores}"
  by (auto simp: GetMaxScoreIndex_def in_set_enumerate_eq)

lemma nms_group_subset: "set (nms_group self ms) \<subseteq> set ms"
proof -
  have "set (NMSBoxes (map match_box ms) (map tm_confidence ms) ct nt) \<subseteq> {..< length ms}" for ct nt
    using NMSFast_set [of "map match_box ms" nt "GetMaxScoreIndex (map tm_confidence ms) ct" "[]"]
      GetMaxScoreIndex_range [of "map tm_confidence ms" ct]
    by (auto simp: NMSBoxes_def)
  then have "i \<in> set (NMSBoxes (map match_box ms) (map tm_confidence ms) ct nt) \<Longrightarrow> ms ! i \<in> set ms"
    for i ct nt
    using nth_mem [of i ms] by blast
  then show ?thesis by (auto simp: nms_group_def)
qed

lemma nms_group_pairwise:
  "sorted_wrt (\<lambda>a b. rectOverlap (match_box a) (match_box b) \<le> nms_threshold self) (nms_group self ms)"
proof (cases "ms = []")
  case True
  then show ?thesis by (simp add: nms_group_def)
next
  case False
  let ?B = "map match_box ms"
  let ?idx = "NMSBoxes ?B (map tm_confidence ms) (confidence_threshold self) (nms_threshold self)"
  have r: "set ?idx \<subseteq> {..< length ms}"
    using NMSFast_set [of ?B "nms_threshold self" "GetMaxScoreIndex (map tm_confidence ms) (confidence_threshold self)" "[]"]
      GetMaxScoreIndex_range [of "map tm_confidence ms" "confidence_threshold self"]
    by (auto simp: NMSBoxes_def)
  have p: "sorted_wrt (\<lambda>i j. rectOverlap (?B ! j) (?B ! i) \<le> nms_threshold self) ?idx"
    unfolding NMSBoxes_def by (rule NMSFast_pairwise) simp
  have "sorted_wrt (\<lambda>i j. rectOverlap (match_box (ms ! i)) (match_box (ms ! j)) \<le> nms_threshold self) ?idx"
  proof (rule sorted_wrt_mono_rel [OF _ p])
    fix i j assume "i \<in> set ?idx" "j \<in> set ?idx"
      and h: "rectOverlap (?B ! j) (?B ! i) \<le> nms_threshold self"
    then have "i < length ms" "j < length ms" using r by auto
    then show "rectOverlap (match_box (ms ! i)) (match_box (ms ! j)) \<le> nms_threshold self"
      using h rectOverlap_sym [of "match_box (ms ! i)"] by simp
  qed
  then show ?thesis using False by (simp add: nms_group_def sorted_wrt_map)
qed

lemma group_by_type_inv:
  assumes "distinct (map fst g)"
    and "\<And>t. map_of g t = (if filter (\<lambda>m. tm_template_type m = t) seen = [] then None
                            else Some (filter (\<lambda>m. tm_template_type m = t) seen))"
  shows "distinct (map fst (group_by_type ms g))
       \<and> (\<forall>t. map_of (group_by_type ms g) t
              = (if filter (\<lambda>m. tm_template_type m = t) (seen @ ms) = [] then None
                 else Some (filter (\<lambda>m. tm_template_type m = t) (seen @ ms))))"
  using assms
proof (induction ms arbitrary: g seen)
  case Nil
  then show ?case by simp
next
  case (Cons m ms)
  let ?k = "tm_template_type m"
  let ?g = "case map_of g ?k of None \<Rightarrow> g @ [(?k, [m])] | Some l \<Rightarrow> AList.update ?k (l @ [m]) g"
  have d: "distinct (map fst ?g)"
    using Cons.prems(1) by (auto simp: map_of_eq_None_iff distinct_update split: option.splits)
  have mo: "map_of ?g t = (if filter (\<lambda>m. tm_template_type m = t) (seen @ [m]) = [] then None
                            else Some (filter (\<lambda>m. tm_template_type m = t) (seen @ [m])))" for t
    using Cons.prems(2) [of t] Cons.prems(2) [of ?k]
    by (auto simp: update_conv' map_add_def split: option.splits if_splits)
  from Cons.IH [of ?g "seen @ [m]", OF d mo] show ?case by simp
qed

lemma filter_concat_groups:
  assumes "distinct (map fst G)"
    and "\<And>t l m. (t, l) \<in> set G \<Longrightarrow> m \<in> set (h l) \<Longrightarrow> tm_template_type m = t"
  shows "filter (\<lambda>m. tm_template_type m = t) (concat (map (\<lambda>g. h (snd g)) G))
       = (case map_of G t of None \<Rightarrow> [] | Some l \<Rightarrow> h l)"
  using assms
proof (induction G)
  case Nil
  then show ?case by simp
next
  case (Cons g G)
  obtain k l where g: "g = (k, l)" by (cases g)
  have ih: "filter (\<lambda>m. tm_template_type m = t) (concat (map (\<lambda>g. h (snd g)) G))
       = (case map_of G t of None \<Rightarrow> [] | Some l \<Rightarrow> h l)"
    using Cons.IH Cons.prems by auto
  have hl: "\<And>m. m \<in> set (h l) \<Longrightarrow> tm_template_type m = k" using Cons.prems(2) g by auto
  show ?case
  proof (cases "t = k")
    case True
    have "map_of G t = None" using Cons.prems(1) g True by (auto simp: map_of_eq_None_iff)
    moreover have "filter (\<lambda>m. tm_template_type m = t) (h l) = h l"
      using hl True by (auto intro: filter_True)
    ultimately show ?thesis using ih g True by simp
  next
    case False
    have "filter (\<lambda>m. tm_template_type m = t) (h l) = []"
      using hl False by (auto simp: filter_empty_conv)
    then show ?thesis using ih g False by simp
  qed
qed

lemma apply_nms_per_type:
  "filter (\<lambda>m. tm_template_type m = t) (apply_nms self ms)
     = nms_group self (filter (\<lambda>m. tm_template_type m = t) ms)"
proof (cases "ms = []")
  case True
  then show ?thesis by (simp add: apply_nms_def nms_group_def)
next
  case False
  let ?G = "group_by_type ms []"
  have inv: "distinct (map fst ?G)"
    "\<And>t. map_of ?G t = (if filter (\<lambda>m. tm_template_type m = t) ms = [] then None
                 else Some (filter (\<lambda>m. tm_template_type m = t) ms))"
    using group_by_type_inv [of "[]" "[]" ms] by simp_all
  have ty: "tm_template_type m = t'" if "(t', l) \<in> set ?G" "m \<in> set (nms_group self l)" for t' l m
  proof -
    have "map_of ?G t' = Some l" using that(1) inv(1) by simp
    then have "l = filter (\<lambda>m. tm_template_type m = t') ms" using inv(2) [of t'] by (simp split: if_splits)
    then show ?thesis using that(2) nms_group_subset [of self l] by auto
  qed
  have "filter (\<lambda>m. tm_template_type m = t) (apply_nms self ms)
      = (case map_of ?G t of None \<Rightarrow> [] | Some l \<Rightarrow> nms_group self l)"
    using filter_concat_groups [of ?G "nms_group self" t, OF inv(1) ty] False
    by (simp add: apply_nms_def)
  then show ?thesis using inv(2) [of t] by (simp add: nms_group_def)
qed

lemma sorted_wrt_by_class:
  "(\<And>t. sorted_wrt Q (filter (\<lambda>m. f m = t) xs)) \<Longrightarrow> sorted_wrt (\<lambda>a b. f a = f b \<longrightarrow> Q a b) xs"
proof (induction xs)
  case Nil
  then show ?case by simp
next
  case (Cons a xs)
  have "sorted_wrt Q (filter (\<lambda>m. f m = t) xs)" for t
    using Cons.prems [of t] by (simp split: if_splits)
  then have ih: "sorted_wrt (\<lambda>a b. f a = f b \<longrightarrow> Q a b) xs" using Cons.IH by blast
  have "\<forall>b\<in>set xs. f a = f b \<longrightarrow> Q a b" using Cons.prems [of "f a"] by auto
  then show ?case using ih by simp
qed

lemma apply_nms_pairwise:
  "sorted_wrt (\<lambda>a b. tm_template_type a = tm_template_type b
                 \<longrightarrow> rectOverlap (match_box a) (match_box b) \<le> nms_threshold self) (apply_nms self ms)"
  by (rule sorted_wrt_by_class) (simp add: apply_nms_per_type nms_group_pairwise)

lemma nms_group_pair:
  assumes "tm_confidence b \<le> tm_confidence a" "confidence_threshold self < tm_confidence a"
    and "nms_threshold self < rectOverlap (match_box a) (match_box b)"
  shows "nms_group self [a, b] = [a]"
  using assms rectOverlap_sym [of "match_box a" "match_box b"]
  by (simp add: nms_group_def NMSBoxes_def GetMaxScoreIndex_def Let_def)

lemma where_ge_set:
  "set (where_ge result thr)
     = {(c, r). r < length result \<and> c < length (result ! r) \<and> thr \<le> result ! r ! c}"
proof -
  have "(c, r) \<in> set (where_ge result thr)
      \<longleftrightarrow> r < length result \<and> c < length (result ! r) \<and> thr \<le> result ! r ! c" for c r
  proof
    assume "(c, r) \<in> set (where_ge result thr)"
    then obtain row v where a: "(r, row) \<in> set (enumerate 0 result)"
      and c: "(c, v) \<in> set (enumerate 0 row)" "thr \<le> v"
      unfolding where_ge_def by auto
    from a have "r < length result" "result ! r = row" by (auto simp: in_set_enumerate_eq)
    moreover from c have "c < length row" "row ! c = v" by (auto simp: in_set_enumerate_eq)
    ultimately show "r < length result \<and> c < length (result ! r) \<and> thr \<le> result ! r ! c"
      using c by simp
  next
    assume h: "r < length result \<and> c < length (result ! r) \<and> thr \<le> result ! r ! c"
    then have a: "(r, result ! r) \<in> set (enumerate 0 result)" by (simp add: in_set_enumerate_eq)
    have "(c, result ! r ! c) \<in> set (enumerate 0 (result ! r))" using h by (simp add: in_set_enumerate_eq)
    then have "(c, r) \<in> set (map (\<lambda>(c, v). (c, r)) (filter (\<lambda>(c, v). thr \<le> v) (enumerate 0 (result ! r))))"
      using h by force
    then show "(c, r) \<in> set (where_ge result thr)"
      unfolding where_ge_def using a by force
  qed
  then show ?thesis by auto
qed


lemma match_single_collects_every_offset:
  assumes "img_height templ \<le> img_height img" "img_width templ \<le> img_width img"
    and "c \<le> img_width img - img_width templ" "r \<le> img_height img - img_height templ"
    and "thr \<le> tm img templ c r"
  shows "TemplateMatch (int c) (int r) (img_width templ) (img_height templ) (tm img templ c r) name ty
           \<in> set (match_single_template tm img templ name ty thr)"
proof -
  let ?res = "map (\<lambda>r. map (\<lambda>c. tm img templ c r) [0 ..< img_width img - img_width templ + 1])
                  [0 ..< img_height img - img_height templ + 1]"
  have m: "matchTemplate tm img templ = Inr ?res" using assms(1,2) by (simp add: matchTemplate_def)
  have v: "r < length ?res" "c < length (?res ! r)" "?res ! r ! c = tm img templ c r"
    using assms(3,4) by (simp_all del: upt_Suc)
  have "(c, r) \<in> set (where_ge ?res thr)"
    using assms(5) v unfolding where_ge_set by simp
  then have "(\<lambda>pt. TemplateMatch (int (fst pt)) (int (snd pt)) (img_width templ) (img_height templ)
                (?res ! snd pt ! fst pt) name ty) (c, r)
             \<in> set (match_single_template tm img templ name ty thr)"
    unfolding match_single_template_def m by (simp only: sum.case set_map) (rule imageI)
  then show ?thesis using v(3) by (simp only: fst_conv snd_conv)
qed

lemmas matcher_eval = match_templates_def ex_matcher_def ex_entry_def type_skipped_def Let_def
    match_single_template_def matchTemplate_def where_ge_def blank_def
    sort_by_confidence_def apply_nms_def nms_group_def NMSBoxes_def GetMaxScoreIndex_def
    TemplateMatch_def match_box_def rectOverlap_def jaccardDistance_def box_area_def box_inter_def
    upt_rec

text \<open>
  Claim C2 fails on the program. Every offset whose score reaches the threshold of its
  template is collected (\<open>match_single_collects_every_offset\<close>), but \<^verbatim>\<open>_apply_nms\<close>
  passes the global confidence threshold to \<^verbatim>\<open>NMSBoxes\<close> as score threshold. A template
  with its own threshold 0.5 and a single candidate of confidence 0.6, which nothing
  overlaps, is collected and then dropped: \<^verbatim>\<open>match_templates\<close> returns the empty list.
\<close>

theorem match_templates_drops_candidate_above_own_threshold:
  "match_single_template ex_tm_low (blank 2 2) (blank 2 2) ''slime'' ''monster'' 0.5
     = [TemplateMatch 0 0 2 2 0.6 ''slime'' ''monster'']
   \<and> match_templates ex_tm_low (ex_matcher [(''slime'', ex_entry 2 2 ''monster'' 0.5)])
        (Some (blank 2 2)) None = []"
  by (simp add: match_templates_def ex_matcher_def ex_entry_def type_skipped_def Let_def
    match_single_template_def matchTemplate_def where_ge_def blank_def ex_tm_low_def
    sort_by_confidence_def apply_nms_def nms_group_def NMSBoxes_def GetMaxScoreIndex_def
    TemplateMatch_def)

text \<open>
  Claim C7 fails on the program. The candidates are sorted by confidence, but
  \<^verbatim>\<open>_apply_nms\<close> then appends the survivors group by group. With two monsters of
  confidence 0.95 and 0.85 and a player of confidence 0.9, none suppressed, the result is
  monster, monster, player: the confidences 0.95, 0.85, 0.9 are not in descending order.
\<close>

theorem match_templates_result_not_sorted:
  "match_templates ex_tm_mixed (ex_matcher ex_library) (Some (blank 2 4)) None
     = [TemplateMatch 0 0 2 2 0.95 ''slime'' ''monster'', TemplateMatch 2 0 2 2 0.85 ''slime'' ''monster'',
        TemplateMatch 1 0 3 2 0.9 ''hero'' ''player'']
   \<and> \<not> sorted_wrt (\<lambda>a b. tm_confidence b \<le> tm_confidence a)
         (match_templates ex_tm_mixed (ex_matcher ex_library) (Some (blank 2 4)) None)"
proof -
  have r: "match_templates ex_tm_mixed (ex_matcher ex_library) (Some (blank 2 4)) None
     = [TemplateMatch 0 0 2 2 0.95 ''slime'' ''monster'', TemplateMatch 2 0 2 2 0.85 ''slime'' ''monster'',
        TemplateMatch 1 0 3 2 0.9 ''hero'' ''player'']"
    by (simp add: matcher_eval ex_tm_mixed_def ex_library_def)
  show ?thesis unfolding r by (simp add: TemplateMatch_def)
qed

text \<open>
  Claim C3, as stated, fails. Three monsters in a row with confidences 0.9, 0.85 and 0.8:
  the second overlaps the first and the third beyond the threshold, the first and the
  third do not overlap. The second is suppressed by the first, and so the third survives:
  of the overlapping pair of the second and the third it is the one of lower confidence
  that is in the result.
\<close>

theorem suppressed_candidate_does_not_protect:
  "collect_matches ex_tm_chain (ex_matcher [(''slime'', ex_entry 1 4 ''monster'' 0.7)]) (blank 1 8) None
       [(''slime'', ex_entry 1 4 ''monster'' 0.7)]
     = [TemplateMatch 0 0 4 1 0.9 ''slime'' ''monster'', TemplateMatch 2 0 4 1 0.85 ''slime'' ''monster'',
        TemplateMatch 4 0 4 1 0.8 ''slime'' ''monster'']
   \<and> nms_threshold (ex_matcher [(''slime'', ex_entry 1 4 ''monster'' 0.7)])
       < rectOverlap (match_box (TemplateMatch 2 0 4 1 0.85 ''slime'' ''monster''))
                     (match_box (TemplateMatch 4 0 4 1 0.8 ''slime'' ''monster''))
   \<and> match_templates ex_tm_chain (ex_matcher [(''slime'', ex_entry 1 4 ''monster'' 0.7)])
        (Some (blank 1 8)) None
     = [TemplateMatch 0 0 4 1 0.9 ''slime'' ''monster'', TemplateMatch 4 0 4 1 0.8 ''slime'' ''monster'']"
  by (simp add: matcher_eval ex_tm_chain_def)

text \<open>
  Claim C3, amended. In the result of \<^verbatim>\<open>match_templates\<close> no two detections of the same
  category overlap beyond the suppression threshold, so of two candidates of one
  category that overlap beyond it at most one survives. The survivors of a category are
  those of the suppression run on the candidates of that category alone: candidates of
  different categories never suppress each other. When a category has exactly two
  candidates, overlapping beyond the threshold, and the higher confidence is above the
  global confidence threshold, exactly the candidate of higher confidence survives; a
  candidate that is alone in its category and above the global confidence threshold
  survives whatever overlaps it.
\<close>

theorem overlap_suppression_per_category:
  "sorted_wrt (\<lambda>a b. tm_template_type a = tm_template_type b
                 \<longrightarrow> rectOverlap (match_box a) (match_box b) \<le> nms_threshold self)
      (match_templates tm self (Some img) tt)
   \<and> filter (\<lambda>m. tm_template_type m = t) (match_templates tm self (Some img) tt)
       = nms_group self (filter (\<lambda>m. tm_template_type m = t)
           (sort_by_confidence (collect_matches tm self img tt (template_cache self))))
   \<and> (filter (\<lambda>m. tm_template_type m = t)
           (sort_by_confidence (collect_matches tm self img tt (template_cache self))) = [a, b]
        \<and> tm_confidence b \<le> tm_confidence a \<and> confidence_threshold self < tm_confidence a
        \<and> nms_threshold self < rectOverlap (match_box a) (match_box b)
      \<longrightarrow> filter (\<lambda>m. tm_template_type m = t) (match_templates tm self (Some img) tt) = [a])
   \<and> (filter (\<lambda>m. tm_template_type m = t)
           (sort_by_confidence (collect_matches tm self img tt (template_cache self))) = [a]
        \<and> confidence_threshold self < tm_confidence a
      \<longrightarrow> filter (\<lambda>m. tm_template_type m = t) (match_templates tm self (Some img) tt) = [a])"
proof -
  let ?C = "sort_by_confidence (collect_matches tm self img tt (template_cache self))"
  have m: "match_templates tm self (Some img) tt = apply_nms self ?C"
    by (simp add: match_templates_def)
  have single: "nms_group self [a] = [a]" if "confidence_threshold self < tm_confidence a"
    using that by (simp add: nms_group_def NMSBoxes_def GetMaxScoreIndex_def Let_def)
  show ?thesis
    unfolding m using apply_nms_pairwise [of self ?C] apply_nms_per_type [of t self ?C]
      nms_group_pair [of b a self] single
    by simp
qed

theorem overlap_suppression_per_category_witness:
  "filter (\<lambda>m. tm_template_type m = ''monster'')
     (sort_by_confidence (collect_matches ex_tm_pair (ex_matcher ex_library_wide) (blank 1 6) None
        (template_cache (ex_matcher ex_library_wide))))
     = [TemplateMatch 0 0 4 1 0.9 ''slime'' ''monster'', TemplateMatch 2 0 4 1 0.85 ''slime'' ''monster'']
   \<and> nms_threshold (ex_matcher ex_library_wide)
       < rectOverlap (match_box (TemplateMatch 0 0 4 1 0.9 ''slime'' ''monster''))
                     (match_box (TemplateMatch 2 0 4 1 0.85 ''slime'' ''monster''))
   \<and> filter (\<lambda>m. tm_template_type m = ''monster'')
        (match_templates ex_tm_pair (ex_matcher ex_library_wide) (Some (blank 1 6)) None)
     = [TemplateMatch 0 0 4 1 0.9 ''slime'' ''monster'']
   \<and> filter (\<lambda>m. tm_template_type m = ''player'')
        (sort_by_confidence (collect_matches ex_tm_pair (ex_matcher ex_library_wide) (blank 1 6) None
           (template_cache (ex_matcher ex_library_wide))))
     = [TemplateMatch 1 0 5 1 0.8 ''hero'' ''player'']
   \<and> nms_threshold (ex_matcher ex_library_wide)
       < rectOverlap (match_box (TemplateMatch 0 0 4 1 0.9 ''slime'' ''monster''))
                     (match_box (TemplateMatch 1 0 5 1 0.8 ''hero'' ''player''))
   \<and> filter (\<lambda>m. tm_template_type m = ''player'')
        (match_templates ex_tm_pair (ex_matcher ex_library_wide) (Some (blank 1 6)) None)
     = [TemplateMatch 1 0 5 1 0.8 ''hero'' ''player'']"
proof -
  let ?A = "TemplateMatch 0 0 4 1 0.9 ''slime'' ''monster''"
  let ?B = "TemplateMatch 2 0 4 1 0.85 ''slime'' ''monster''"
  let ?P = "TemplateMatch 1 0 5 1 0.8 ''hero'' ''player''"
  let ?M = "ex_matcher ex_library_wide"
  have c: "sort_by_confidence (collect_matches ex_tm_pair ?M (blank 1 6) None (template_cache ?M))
     = [?A, ?B, ?P]"
    by (simp add: matcher_eval ex_tm_pair_def ex_library_wide_def)
  have cm: "filter (\<lambda>m. tm_template_type m = ''monster'')
      (sort_by_confidence (collect_matches ex_tm_pair ?M (blank 1 6) None (template_cache ?M))) = [?A, ?B]"
    unfolding c by (simp add: TemplateMatch_def)
  have cp: "filter (\<lambda>m. tm_template_type m = ''player'')
      (sort_by_confidence (collect_matches ex_tm_pair ?M (blank 1 6) None (template_cache ?M))) = [?P]"
    unfolding c by (simp add: TemplateMatch_def)
  have num: "tm_confidence ?B \<le> tm_confidence ?A" "confidence_threshold ?M < tm_confidence ?A"
    "nms_threshold ?M < rectOverlap (match_box ?A) (match_box ?B)"
    "confidence_threshold ?M < tm_confidence ?P"
    "nms_threshold ?M < rectOverlap (match_box ?A) (match_box ?P)"
    by (simp_all add: matcher_eval)
  have rm: "filter (\<lambda>m. tm_template_type m = ''monster'')
        (match_templates ex_tm_pair ?M (Some (blank 1 6)) None) = [?A]"
    using overlap_suppression_per_category [of ?M ex_tm_pair "blank 1 6" None "''monster''" ?A ?B]
      cm num by blast
  have rp: "filter (\<lambda>m. tm_template_type m = ''player'')
        (match_templates ex_tm_pair ?M (Some (blank 1 6)) None) = [?P]"
    using overlap_suppression_per_category [of ?M ex_tm_pair "blank 1 6" None "''player''" ?P ?P]
      cp num by blast
  show ?thesis using cm cp num rm rp by blast
qed

end
